theory Spec2Isabelle
  imports Complex_Main
begin

section \<open>VibraFrame face locator service: a shallow embedding of python\_api/main.py\<close>

text \<open>
  The service is one module with two route handlers, \<open>read_root\<close> (GET /) and
  \<open>detect_face\<close> (POST /detect-face). The handlers call into libraries that are not part
  of the repository: the upload object of the HTTP framework, PIL, numpy and MediaPipe.
  Those calls are the fields of an environment record; each is an operation on an abstract
  state of the outside world that returns a value or raises. The handler itself is
  translated line by line. Python floats are IEEE 754 binary64 numbers; their addition and
  their division by 2 round to the nearest double, ties to even.
\<close>

subsection \<open>Python floats\<close>

text \<open>
  A Python float is a double: a finite number, a negative zero, an infinity or NaN.
  \<open>Finite q\<close> is the double whose value is the rational \<open>q\<close> (\<open>Finite 0\<close> is the positive
  zero). The finite doubles are the numbers \<open>m * 2 ^ e\<close> with \<open>\<bar>m\<bar> < 2 ^ 53\<close> and
  \<open>- 1074 \<le> e \<le> 971\<close>.
\<close>

datatype double = Finite rat | NegZero | PosInf | NegInf | NaN

definition pow2 :: "int \<Rightarrow> rat" where
  "pow2 e = (if 0 \<le> e then of_int (2 ^ nat e) else 1 / of_int (2 ^ nat (- e)))"

text \<open>The number of binary digits of a positive integer.\<close>

function bit_length :: "int \<Rightarrow> int" where
  "bit_length n = (if n \<le> 0 then 0 else 1 + bit_length (n div 2))"
  by pat_completeness auto
termination
  by (relation "measure nat") auto

declare bit_length.simps [simp del]

text \<open>For a positive rational \<open>a\<close>, the integer \<open>k\<close> with \<open>2 ^ k \<le> a < 2 ^ (k + 1)\<close>.\<close>

definition floor_log2 :: "rat \<Rightarrow> int" where
  "floor_log2 a =
     (let k = (if 1 \<le> a then bit_length \<lfloor>a\<rfloor> - 1 else 1 - bit_length \<lfloor>1 / a\<rfloor>)
      in if pow2 k \<le> a then k else k - 1)"

text \<open>Rounding a rational that is not negative to the nearest integer, a tie to the even
  one.\<close>

definition round_half_even :: "rat \<Rightarrow> int" where
  "round_half_even t =
     (let n = \<lfloor>t\<rfloor>; r = t - of_int n
      in if r < 1 / 2 then n else if 1 / 2 < r then n + 1 else if even n then n else n + 1)"

text \<open>
  The double nearest to a rational, ties to even (the rounding of IEEE 754 that Python
  uses for float arithmetic and for float literals). The value is rounded to 53 binary
  digits, or to a multiple of \<open>2 ^ - 1074\<close> when it is smaller than \<open>2 ^ - 1022\<close>; the result
  is \<open>m * 2 ^ e\<close>. It overflows to an infinity when \<open>m * 2 ^ e\<close> reaches \<open>2 ^ 1024\<close>, that is
  when \<open>e\<close> exceeds 971 or \<open>e\<close> is 971 and \<open>m\<close> is \<open>2 ^ 53\<close>. A rational that rounds to zero
  keeps its sign.
\<close>

definition round_double :: "rat \<Rightarrow> double" where
  "round_double q =
     (if q = 0 then Finite 0
      else
        (let a = \<bar>q\<bar>;
             e = max (floor_log2 a - 52) (- 1074);
             m = round_half_even (a / pow2 e)
         in if 971 < e \<or> (e = 971 \<and> 2 ^ 53 \<le> m) then (if q < 0 then NegInf else PosInf)
            else if m = 0 then (if q < 0 then NegZero else Finite 0)
            else Finite (if q < 0 then - (of_int m * pow2 e) else of_int m * pow2 e)))"

text \<open>\<open>x + y\<close> on floats. The sum of two zeros is the negative zero only when both are; a
  sum that is exactly zero otherwise is the positive zero.\<close>

fun float_add :: "double \<Rightarrow> double \<Rightarrow> double" where
  "float_add NaN y = NaN"
| "float_add x NaN = NaN"
| "float_add PosInf NegInf = NaN"
| "float_add NegInf PosInf = NaN"
| "float_add PosInf y = PosInf"
| "float_add x PosInf = PosInf"
| "float_add NegInf y = NegInf"
| "float_add x NegInf = NegInf"
| "float_add NegZero NegZero = NegZero"
| "float_add NegZero (Finite q) = Finite q"
| "float_add (Finite p) NegZero = Finite p"
| "float_add (Finite p) (Finite q) = round_double (p + q)"

text \<open>\<open>x / 2\<close> for a float \<open>x\<close>: the integer 2 becomes the float 2.0, which is not zero, so
  the division does not raise.\<close>

fun float_div_2 :: "double \<Rightarrow> double" where
  "float_div_2 NaN = NaN"
| "float_div_2 PosInf = PosInf"
| "float_div_2 NegInf = NegInf"
| "float_div_2 NegZero = NegZero"
| "float_div_2 (Finite q) = round_double (q / 2)"

subsection \<open>Values\<close>

type_synonym bytes = "nat list"

text \<open>An \<open>UploadFile\<close>: the declared content type is optional, the body is a byte string.\<close>

record upload =
  content_type :: "string option"
  body :: bytes

text \<open>
  A raised Python exception: its class name and \<open>str(e)\<close>. \<open>Exception\<close> stands for every
  instance of the class \<open>Exception\<close>, \<open>BaseException\<close> for the ones that do not derive from
  it (KeyboardInterrupt, SystemExit, GeneratorExit, asyncio.CancelledError), which a clause
  \<open>except Exception\<close> does not catch.
\<close>

datatype py_exc =
  Exception (exc_class: string) (str: string)
| BaseException (exc_class: string) (str: string)

text \<open>The dictionaries the handlers return, as JSON values; key order as written.\<close>

datatype json =
  JBool bool
| JNum double
| JStr string
| JObj "(string \<times> json) list"

text \<open>How a handler call ends: it returns a dictionary, raises \<open>HTTPException\<close>, or
  raises something else that leaves the handler.\<close>

datatype outcome =
  Return json
| Raise_HTTPException nat string
| Raise py_exc

text \<open>A PIL image (mode, size, raw data) and a numpy array (shape, data).\<close>

record image =
  mode :: string
  im_size :: "nat \<times> nat"
  im_data :: bytes

record ndarray =
  shape :: "nat list"
  data :: bytes

text \<open>A MediaPipe detection: score and location data with the relative bounding box.\<close>

record bounding_box =
  xmin :: double
  ymin :: double
  width :: double
  height :: double

record location_data =
  relative_bounding_box :: bounding_box

record detection =
  score :: double
  location_data :: location_data

text \<open>The \<open>FaceDetection\<close> object, with the parameters it was built with, and the value
  of \<open>process\<close>, whose attribute \<open>detections\<close> is \<open>None\<close> or a list.\<close>

record face_detection =
  model_selection :: nat
  min_detection_confidence :: double

record results =
  detections :: "detection list option"

subsection \<open>The outside world\<close>

text \<open>An external operation runs in a world state \<open>'w\<close>, returns or raises, and leaves a
  world state.\<close>

type_synonym ('w, 'a) ext_op = "'w \<Rightarrow> (py_exc + 'a) \<times> 'w"

record 'w env =
  read :: "upload \<Rightarrow> ('w, bytes) ext_op"
  image_open :: "bytes \<Rightarrow> ('w, image) ext_op"
  image_convert :: "image \<Rightarrow> string \<Rightarrow> ('w, image) ext_op"
  np_array :: "image \<Rightarrow> ('w, ndarray) ext_op"
  FaceDetection :: "nat \<Rightarrow> double \<Rightarrow> ('w, face_detection) ext_op"
  process :: "face_detection \<Rightarrow> ndarray \<Rightarrow> ('w, results) ext_op"
  close :: "face_detection \<Rightarrow> ('w, unit) ext_op"

text \<open>The calls a handler makes are logged, in order, next to the world state, and so is
  every exception that one of them, or a statement of the \<open>try\<close> block, raises.\<close>

datatype event =
  Read
| Image_open bytes
| Convert image string
| Np_array image
| New_FaceDetection nat double
| Process ndarray
| Close
| Print string
| Raised py_exc

record 'w st =
  world :: 'w
  calls :: "event list"

type_synonym ('w, 'a) eff = "'w st \<Rightarrow> (py_exc + 'a) \<times> 'w st"

definition ret :: "'a \<Rightarrow> ('w, 'a) eff" where
  "ret x s = (Inr x, s)"

definition raised :: "py_exc + 'a \<Rightarrow> event list" where
  "raised r = (case r of Inl e \<Rightarrow> [Raised e] | Inr x \<Rightarrow> [])"

definition lift :: "py_exc + 'a \<Rightarrow> ('w, 'a) eff" where
  "lift r s = (r, s\<lparr>calls := calls s @ raised r\<rparr>)"

definition then_do :: "('w, 'a) eff \<Rightarrow> ('a \<Rightarrow> ('w, 'b) eff) \<Rightarrow> ('w, 'b) eff" where
  "then_do m f s = (case m s of (Inl e, s') \<Rightarrow> (Inl e, s') | (Inr x, s') \<Rightarrow> f x s')"

definition call :: "event \<Rightarrow> ('w, 'a) ext_op \<Rightarrow> ('w, 'a) eff" where
  "call ev op s =
     (case op (world s) of (r, w') \<Rightarrow> (r, \<lparr>world = w', calls = calls s @ [ev] @ raised r\<rparr>))"

definition print :: "string \<Rightarrow> 'w st \<Rightarrow> 'w st" where
  "print line s = s\<lparr>calls := calls s @ [Print line]\<rparr>"

text \<open>
  The \<open>with\<close> statement: the resource is acquired, the body runs, and the resource is
  released whether the body returned or raised (\<open>__exit__\<close> of MediaPipe's solutions calls
  \<open>close\<close> and returns nothing, so an exception of the body is raised again). An exception
  of the release replaces the result of the body.
\<close>

definition with_resource ::
  "('w, 'r) eff \<Rightarrow> ('r \<Rightarrow> ('w, unit) eff) \<Rightarrow> ('r \<Rightarrow> ('w, 'a) eff) \<Rightarrow> ('w, 'a) eff" where
  "with_resource acquire release block s =
     (case acquire s of
        (Inl e, s1) \<Rightarrow> (Inl e, s1)
      | (Inr r, s1) \<Rightarrow>
          (case block r s1 of
             (res, s2) \<Rightarrow>
               (case release r s2 of
                  (Inl e', s3) \<Rightarrow> (Inl e', s3)
                | (Inr u, s3) \<Rightarrow> (res, s3))))"

subsection \<open>Python primitives\<close>

text \<open>\<open>s.startswith(p)\<close>.\<close>

definition startswith :: "string \<Rightarrow> string \<Rightarrow> bool" where
  "startswith s p = (take (length p) s = p)"

text \<open>A name between apostrophes, as Python's error messages write it.\<close>

definition quoted :: "string \<Rightarrow> string" where
  "quoted name = CHR 0x27 # name @ [CHR 0x27]"

text \<open>\<open>height, width, _ = t\<close>: unpacking a tuple into three names raises ValueError unless
  the tuple has three items.\<close>

definition unpack3 :: "nat list \<Rightarrow> py_exc + (nat \<times> nat \<times> nat)" where
  "unpack3 t =
     (case t of
        [a, b, c] \<Rightarrow> Inr (a, b, c)
      | _ \<Rightarrow>
          if length t < 3 then
            Inl (Exception ''ValueError''
                  (''not enough values to unpack (expected 3, got ''
                    @ (case length t of 0 \<Rightarrow> ''0'' | Suc 0 \<Rightarrow> ''1'' | _ \<Rightarrow> ''2'') @ '')''))
          else Inl (Exception ''ValueError'' ''too many values to unpack (expected 3)''))"

subsection \<open>GET /\<close>

text \<open>\<open>read_root\<close> (lines 21-23) takes no argument and touches nothing.\<close>

definition read_root :: "'w st \<Rightarrow> outcome \<times> 'w st" where
  "read_root s =
     (Return (JObj [(''status'', JStr ''ok''), (''service'', JStr ''VibraFrame Face Detection'')]), s)"

subsection \<open>POST /detect-face\<close>

text \<open>Lines 32-40: read the upload, open it as an image, convert it to RGB when its mode is
  another one, turn it into an array and unpack the array's shape.\<close>

definition load_image :: "'w env \<Rightarrow> upload \<Rightarrow> ('w, ndarray) eff" where
  "load_image env file =
     then_do (call Read (read env file)) (\<lambda>contents.
     then_do (call (Image_open contents) (image_open env contents)) (\<lambda>image.
     then_do (if mode image \<noteq> ''RGB''
              then call (Convert image ''RGB'') (image_convert env image ''RGB'')
              else ret image) (\<lambda>image.
     then_do (call (Np_array image) (np_array env image)) (\<lambda>img_np.
     then_do (lift (unpack3 (shape img_np))) (\<lambda>(height, width, _).
     ret img_np)))))"

text \<open>Lines 49-73: the dictionary for the value of \<open>process\<close>. \<open>not results.detections\<close>
  holds for \<open>None\<close> and for the empty list; otherwise the first detection is used.\<close>

definition face_response :: "results \<Rightarrow> json" where
  "face_response res =
     (case detections res of
        None \<Rightarrow> JObj [(''ok'', JBool True), (''found'', JBool False)]
      | Some [] \<Rightarrow> JObj [(''ok'', JBool True), (''found'', JBool False)]
      | Some (detection # _) \<Rightarrow>
          (let bbox = relative_bounding_box (location_data detection);
               face_cx = float_add (xmin bbox) (float_div_2 (width bbox));
               face_cy = float_add (ymin bbox) (float_div_2 (height bbox))
           in JObj [(''ok'', JBool True), (''found'', JBool True),
                    (''face'', JObj [(''x'', JNum face_cx), (''y'', JNum face_cy),
                                     (''w'', JNum (width bbox)), (''h'', JNum (height bbox))])]))"

text \<open>Lines 43-73: the detector is built with \<open>model_selection=1\<close> and
  \<open>min_detection_confidence=0.5\<close>, run on the array inside the \<open>with\<close> block, and closed
  when the block is left.\<close>

definition run_detection :: "'w env \<Rightarrow> ndarray \<Rightarrow> ('w, json) eff" where
  "run_detection env img_np =
     with_resource
       (call (New_FaceDetection 1 (Finite (1 / 2))) (FaceDetection env 1 (Finite (1 / 2))))
       (\<lambda>face_detection. call Close (close env face_detection))
       (\<lambda>face_detection.
          then_do (call (Process img_np) (process env face_detection img_np)) (\<lambda>res.
          ret (face_response res)))"

text \<open>Lines 30-73: the body of the \<open>try\<close> statement.\<close>

definition try_body :: "'w env \<Rightarrow> upload \<Rightarrow> ('w, json) eff" where
  "try_body env file = then_do (load_image env file) (run_detection env)"

text \<open>
  Lines 26-77: \<open>detect_face\<close>. The test of the content type stands before the \<open>try\<close>
  statement: \<open>None.startswith\<close> raises AttributeError there, and \<open>HTTPException\<close> is raised
  there. \<open>except Exception\<close> prints a line and returns the error dictionary; any other
  exception leaves the handler.
\<close>

definition detect_face :: "'w env \<Rightarrow> upload \<Rightarrow> 'w st \<Rightarrow> outcome \<times> 'w st" where
  "detect_face env file s =
     (case content_type file of
        None \<Rightarrow>
          (Raise (Exception ''AttributeError''
                   (quoted ''NoneType'' @ '' object has no attribute '' @ quoted ''startswith'')), s)
      | Some ct \<Rightarrow>
          if \<not> startswith ct ''image/'' then
            (Raise_HTTPException 400 ''File must be an image'', s)
          else
            (case try_body env file s of
               (Inr response, s') \<Rightarrow> (Return response, s')
             | (Inl (Exception c e), s') \<Rightarrow>
                 (Return (JObj [(''ok'', JBool False), (''error'', JStr e)]),
                  print (''Error processing image: '' @ e) s')
             | (Inl (BaseException c e), s') \<Rightarrow> (Raise (BaseException c e), s')))"

text \<open>A dictionary can be rendered as JSON when none of its numbers is NaN or an
  infinity.\<close>

primrec json_compliant :: "json \<Rightarrow> bool" where
  "json_compliant (JBool b) = True"
| "json_compliant (JNum x) = (case x of Finite q \<Rightarrow> True | NegZero \<Rightarrow> True | _ \<Rightarrow> False)"
| "json_compliant (JStr t) = True"
| "json_compliant (JObj kvs) = list_all snd (map (map_prod id json_compliant) kvs)"

text \<open>
  Modelled from the spec: the HTTP framework (FastAPI), which is not part of the source.
  A returned dictionary is sent with status 200, \<open>HTTPException\<close> with its status code and
  the body \<open>{"detail": ...}\<close> (section 6 of the specification). An exception of class
  \<open>Exception\<close> that leaves the handler is answered with status 500; so is a returned
  dictionary that cannot be rendered as JSON, since the framework renders it with
  \<open>allow_nan=False\<close> after the handler has returned. What the server does when an exception
  that does not derive from \<open>Exception\<close> leaves the handler is not described, and the
  function says nothing about it.
\<close>

fun http_response :: "outcome \<Rightarrow> (nat \<times> json) option" where
  "http_response (Return d) =
     (if json_compliant d then Some (200, d) else Some (500, JStr ''Internal Server Error''))"
| "http_response (Raise_HTTPException code detail) = Some (code, JObj [(''detail'', JStr detail)])"
| "http_response (Raise (Exception c e)) = Some (500, JStr ''Internal Server Error'')"

subsection \<open>Notions used to state the properties\<close>

text \<open>What the detection capability gives for an array: the \<open>with\<close> block of lines 43-47
  (build, \<open>process\<close>, close) before the value of \<open>process\<close> is mapped to a dictionary.\<close>

definition face_detection_results :: "'w env \<Rightarrow> ndarray \<Rightarrow> ('w, results) eff" where
  "face_detection_results env img_np =
     with_resource
       (call (New_FaceDetection 1 (Finite (1 / 2))) (FaceDetection env 1 (Finite (1 / 2))))
       (\<lambda>face_detection. call Close (close env face_detection))
       (\<lambda>face_detection. call (Process img_np) (process env face_detection img_np))"

text \<open>Reading a key of a JSON object.\<close>

fun lookup :: "string \<Rightarrow> json \<Rightarrow> json option" where
  "lookup k (JObj kvs) = map_of kvs k"
| "lookup k (JBool b) = None"
| "lookup k (JNum r) = None"
| "lookup k (JStr t) = None"

text \<open>What a response says about the face: the values under \<open>found\<close> and \<open>face\<close> of a
  returned dictionary, and nothing when the handler raised.\<close>

definition found_and_face :: "outcome \<Rightarrow> json option \<times> json option" where
  "found_and_face out =
     (case out of
        Return d \<Rightarrow> (lookup ''found'' d, lookup ''face'' d)
      | _ \<Rightarrow> (None, None))"

text \<open>The number of colour channels of a pixel buffer of shape (height, width, channels).\<close>

definition channels :: "ndarray \<Rightarrow> nat option" where
  "channels a = (case shape a of [h, w, c] \<Rightarrow> Some c | _ \<Rightarrow> None)"

text \<open>
  Two results agree when both are the same value or both are a raised exception (which
  exception, and with which message, is left open). An external operation is repeatable
  when its results in any two states of the world agree: run again on the same arguments,
  it returns the same value or raises again. Loading is repeatable when reading the upload,
  opening it, converting it and turning it into an array are; detection is repeatable when
  building the detector, \<open>process\<close> and \<open>close\<close> are.
\<close>

definition agree :: "py_exc + 'a \<Rightarrow> py_exc + 'a \<Rightarrow> bool" where
  "agree r r' =
     (case r of
        Inl e \<Rightarrow> (case r' of Inl e' \<Rightarrow> True | Inr y \<Rightarrow> False)
      | Inr x \<Rightarrow> (case r' of Inl e' \<Rightarrow> False | Inr y \<Rightarrow> x = y))"

definition repeatable :: "('w, 'a) ext_op \<Rightarrow> bool" where
  "repeatable op = (\<forall>w w'. agree (fst (op w)) (fst (op w')))"

definition repeatable_loading :: "'w env \<Rightarrow> bool" where
  "repeatable_loading env =
     ((\<forall>file. repeatable (read env file)) \<and>
      (\<forall>contents. repeatable (image_open env contents)) \<and>
      (\<forall>im m. repeatable (image_convert env im m)) \<and>
      (\<forall>im. repeatable (np_array env im)))"

definition repeatable_detection :: "'w env \<Rightarrow> bool" where
  "repeatable_detection env =
     ((\<forall>ms c. repeatable (FaceDetection env ms c)) \<and>
      (\<forall>fd a. repeatable (process env fd a)) \<and>
      (\<forall>fd. repeatable (close env fd)))"

text \<open>The events a request added to the log, and the last exception raised among a list
  of events.\<close>

definition new_calls :: "'w st \<Rightarrow> 'w st \<Rightarrow> event list" where
  "new_calls s s' = drop (length (calls s)) (calls s')"

fun last_raised :: "event list \<Rightarrow> py_exc option" where
  "last_raised [] = None"
| "last_raised (ev # evs) =
     (case last_raised evs of
        Some e \<Rightarrow> Some e
      | None \<Rightarrow> (case ev of Raised e \<Rightarrow> Some e | _ \<Rightarrow> None))"

text \<open>What the handler relies on from PIL and numpy: \<open>convert("RGB")\<close> gives an image of
  mode RGB, and the array of an RGB image has three channels.\<close>

definition pil_contract :: "'w env \<Rightarrow> bool" where
  "pil_contract env =
     ((\<forall>im w im' w'. image_convert env im ''RGB'' w = (Inr im', w') \<longrightarrow> mode im' = ''RGB'') \<and>
      (\<forall>im w a w'. mode im = ''RGB'' \<and> np_array env im w = (Inr a, w') \<longrightarrow> channels a = Some 3))"

subsection \<open>Example uploads and environments\<close>

text \<open>The world of the examples counts the external calls made so far. Decoding gives the
  given outcome; the array of an image has three
  channels for RGB and none otherwise; \<open>process\<close> gives the given outcome.\<close>

definition example_env :: "py_exc + image \<Rightarrow> py_exc + results \<Rightarrow> nat env" where
  "example_env decoded r =
     \<lparr>read = (\<lambda>file w. (Inr (body file), Suc w)),
      image_open = (\<lambda>contents w. (decoded, Suc w)),
      image_convert = (\<lambda>im m' w. (Inr (im\<lparr>mode := m'\<rparr>), Suc w)),
      np_array = (\<lambda>im w.
        (Inr \<lparr>shape = (if mode im = ''RGB'' then [snd (im_size im), fst (im_size im), 3]
                         else [snd (im_size im), fst (im_size im)]),
              data = im_data im\<rparr>, Suc w)),
      FaceDetection = (\<lambda>ms c w. (Inr \<lparr>model_selection = ms, min_detection_confidence = c\<rparr>, Suc w)),
      process = (\<lambda>fd a w. (r, Suc w)),
      close = (\<lambda>fd w. (Inr (), Suc w))\<rparr>"

definition png_upload :: upload where
  "png_upload = \<lparr>content_type = Some ''image/png'', body = [137, 80, 78, 71]\<rparr>"

definition text_upload :: upload where
  "text_upload = \<lparr>content_type = Some ''text/plain'', body = [104, 105]\<rparr>"

definition grey_image :: image where
  "grey_image = \<lparr>mode = ''L'', im_size = (4, 2), im_data = [0, 0, 0, 0, 0, 0, 0, 0]\<rparr>"

definition start :: "nat st" where
  "start = \<lparr>world = 0, calls = []\<rparr>"

text \<open>A detection written with decimal numbers, as Python float literals: each number
  stands for the double nearest to it.\<close>

definition face_at :: "rat \<Rightarrow> rat \<Rightarrow> rat \<Rightarrow> rat \<Rightarrow> rat \<Rightarrow> detection" where
  "face_at sc x y w h =
     \<lparr>score = round_double sc,
      location_data =
        \<lparr>relative_bounding_box =
           \<lparr>xmin = round_double x, ymin = round_double y,
            width = round_double w, height = round_double h\<rparr>\<rparr>\<rparr>"

definition rgb_array :: ndarray where
  "rgb_array = \<lparr>shape = [2, 4, 3], data = [0, 0, 0, 0, 0, 0, 0, 0]\<rparr>"

text \<open>The state of the examples once the upload is loaded, and once detection has run.\<close>

definition loaded :: "nat st" where
  "loaded =
     \<lparr>world = 4,
      calls = [Read, Image_open [137, 80, 78, 71], Convert grey_image ''RGB'',
               Np_array (grey_image\<lparr>mode := ''RGB''\<rparr>)]\<rparr>"

definition detected :: "nat st" where
  "detected =
     \<lparr>world = 7,
      calls = calls loaded @ [New_FaceDetection 1 (Finite (1 / 2)), Process rgb_array, Close]\<rparr>"

text \<open>An environment in which \<open>process\<close> and then \<open>close\<close> raise.\<close>

definition closing_env :: "py_exc \<Rightarrow> py_exc \<Rightarrow> nat env" where
  "closing_env e e' =
     (example_env (Inr grey_image) (Inl e))\<lparr>close := (\<lambda>fd w. (Inl e', Suc w))\<rparr>"

text \<open>An environment in which opening the upload fails with a message that changes from
  one call to the next, as the address in the message of PIL does.\<close>

definition address_env :: "nat env" where
  "address_env =
     (example_env (Inr grey_image) (Inr \<lparr>detections = None\<rparr>))
       \<lparr>image_open := (\<lambda>contents w.
          (Inl (Exception ''UnidentifiedImageError''
                 (''cannot identify image file at ''
                    @ (if even w then ''0x7f3a5c0'' else ''0x7f3a5c8''))), Suc w))\<rparr>"

subsection \<open>Notions used in the proofs\<close>

text \<open>A computation keeps track of its exceptions when it only adds to the log and its
  result is the last exception it logged, or a value when it logged none.\<close>

definition tracks :: "('w, 'a) eff \<Rightarrow> bool" where
  "tracks m =
     (\<forall>s. \<exists>new. calls (snd (m s)) = calls s @ new \<and>
        (case fst (m s) of Inl e \<Rightarrow> last_raised new = Some e | Inr x \<Rightarrow> last_raised new = None))"

text \<open>A computation is repeatable when its results in any two states agree.\<close>

definition repeatable_eff :: "('w, 'a) eff \<Rightarrow> bool" where
  "repeatable_eff m = (\<forall>s s'. agree (fst (m s)) (fst (m s')))"

section \<open>Properties\<close>

subsection \<open>Auxiliary facts\<close>

lemmas eff_defs = then_do_def call_def ret_def lift_def with_resource_def print_def raised_def

lemmas example_defs = example_env_def png_upload_def text_upload_def grey_image_def start_def
  rgb_array_def loaded_def detected_def

lemma run_detection_results:
  "run_detection env a s =
     (case face_detection_results env a s of
        (Inl e, s') \<Rightarrow> (Inl e, s')
      | (Inr r, s') \<Rightarrow> (Inr (face_response r), s'))"
  by (simp add: run_detection_def face_detection_results_def eff_defs split: prod.splits sum.splits)

lemma detect_face_success:
  assumes "content_type file = Some ct" and "startswith ct ''image/''"
    and "load_image env file s = (Inr a, s1)"
    and "face_detection_results env a s1 = (Inr r, s2)"
  shows "detect_face env file s = (Return (face_response r), s2)"
  using assms by (simp add: detect_face_def try_body_def then_do_def run_detection_results)

lemma load_image_calls:
  assumes "load_image env file s = (res, s1)"
  shows "Process a \<notin> set (calls s1) - set (calls s)"
  using assms
  by (auto simp add: load_image_def eff_defs split: prod.splits sum.splits if_splits)

lemma load_image_channels:
  assumes "pil_contract env" and "load_image env file s = (Inr a, s1)"
  shows "channels a = Some 3"
proof -
  from assms(2) obtain im w w' where rgb: "mode im = ''RGB''"
    and arr: "np_array env im w = (Inr a, w')"
    using assms(1)
    apply (simp add: load_image_def eff_defs pil_contract_def split: prod.splits sum.splits if_splits)
    apply metis+
    done
  with assms(1) show ?thesis unfolding pil_contract_def by blast
qed

lemma run_detection_calls:
  assumes "run_detection env a s1 = (res, s2)" and "Process a' \<in> set (calls s2)"
  shows "Process a' \<in> set (calls s1) \<or> a' = a"
  using assms
  by (auto simp add: run_detection_def eff_defs split: prod.splits sum.splits)

lemma last_raised_append:
  "last_raised (xs @ ys) = (case last_raised ys of Some e \<Rightarrow> Some e | None \<Rightarrow> last_raised xs)"
  by (induction xs) (auto split: option.splits)

lemma last_raised_raised:
  "last_raised (raised r) = (case r of Inl e \<Rightarrow> Some e | Inr x \<Rightarrow> None)"
  by (simp add: raised_def split: sum.splits)

lemma tracks_ret: "tracks (ret x)"
  by (simp add: tracks_def ret_def)

lemma tracks_lift: "tracks (lift r)"
  by (auto simp add: tracks_def lift_def last_raised_raised split: sum.splits)

lemma tracks_call:
  fixes op :: "('w, 'a) ext_op"
  assumes "\<And>e. ev \<noteq> Raised e"
  shows "tracks (call ev op)"
  unfolding tracks_def
proof
  fix s :: "'w st"
  obtain r w' where o: "op (world s) = (r, w')" by (cases "op (world s)")
  have "last_raised [ev] = None" using assms by (cases ev) auto
  then have "last_raised ([ev] @ raised r) = (case r of Inl e \<Rightarrow> Some e | Inr x \<Rightarrow> None)"
    unfolding last_raised_append last_raised_raised by (simp split: sum.splits)
  with o show "\<exists>new. calls (snd (call ev op s)) = calls s @ new \<and>
        (case fst (call ev op s) of Inl e \<Rightarrow> last_raised new = Some e | Inr x \<Rightarrow> last_raised new = None)"
    by (intro exI [of _ "[ev] @ raised r"]) (simp add: call_def split: sum.splits)
qed

lemma tracksD:
  assumes "tracks m" and "m s = (r, s')"
  obtains new where "calls s' = calls s @ new"
    and "case r of Inl e \<Rightarrow> last_raised new = Some e | Inr x \<Rightarrow> last_raised new = None"
  using assms unfolding tracks_def by (metis fst_conv snd_conv)

lemma tracks_then_do:
  assumes "tracks m" and "\<And>x. tracks (f x)"
  shows "tracks (then_do m f)"
  unfolding tracks_def
proof
  fix s
  obtain r s1 where m: "m s = (r, s1)" by (cases "m s")
  from tracksD [OF assms(1) m] obtain new where n: "calls s1 = calls s @ new"
    and l: "case r of Inl e \<Rightarrow> last_raised new = Some e | Inr x \<Rightarrow> last_raised new = None"
    by blast
  show "\<exists>new. calls (snd (then_do m f s)) = calls s @ new \<and>
        (case fst (then_do m f s) of Inl e \<Rightarrow> last_raised new = Some e | Inr x \<Rightarrow> last_raised new = None)"
  proof (cases r)
    case (Inl e)
    with m n l show ?thesis by (auto simp add: then_do_def)
  next
    case (Inr x)
    obtain r2 s2 where f: "f x s1 = (r2, s2)" by (cases "f x s1")
    from tracksD [OF assms(2) f] obtain new2 where n2: "calls s2 = calls s1 @ new2"
      and l2: "case r2 of Inl e \<Rightarrow> last_raised new2 = Some e | Inr x \<Rightarrow> last_raised new2 = None"
      by blast
    from Inr m f n n2 l l2 show ?thesis
      by (intro exI [of _ "new @ new2"])
         (auto simp add: then_do_def last_raised_append split: sum.splits)
  qed
qed

lemma tracks_with_resource:
  assumes "tracks acquire" and "\<And>r. tracks (release r)" and "\<And>r. tracks (block r)"
  shows "tracks (with_resource acquire release block)"
  unfolding tracks_def
proof
  fix s
  let ?m = "with_resource acquire release block"
  obtain r s1 where a: "acquire s = (r, s1)" by (cases "acquire s")
  from tracksD [OF assms(1) a] obtain new where n: "calls s1 = calls s @ new"
    and l: "case r of Inl e \<Rightarrow> last_raised new = Some e | Inr x \<Rightarrow> last_raised new = None"
    by blast
  show "\<exists>new. calls (snd (?m s)) = calls s @ new \<and>
        (case fst (?m s) of Inl e \<Rightarrow> last_raised new = Some e | Inr x \<Rightarrow> last_raised new = None)"
  proof (cases r)
    case (Inl e)
    with a n l show ?thesis by (auto simp add: with_resource_def)
  next
    case (Inr x)
    obtain r2 s2 where b: "block x s1 = (r2, s2)" by (cases "block x s1")
    from tracksD [OF assms(3) b] obtain new2 where n2: "calls s2 = calls s1 @ new2"
      and l2: "case r2 of Inl e \<Rightarrow> last_raised new2 = Some e | Inr x \<Rightarrow> last_raised new2 = None"
      by blast
    obtain r3 s3 where c: "release x s2 = (r3, s3)" by (cases "release x s2")
    from tracksD [OF assms(2) c] obtain new3 where n3: "calls s3 = calls s2 @ new3"
      and l3: "case r3 of Inl e \<Rightarrow> last_raised new3 = Some e | Inr x \<Rightarrow> last_raised new3 = None"
      by blast
    from Inr a b c n n2 n3 l l2 l3 show ?thesis
      by (intro exI [of _ "new @ new2 @ new3"])
         (auto simp add: with_resource_def last_raised_append split: sum.splits)
  qed
qed

lemma tracks_try_body: "tracks (try_body env file)"
  unfolding try_body_def load_image_def run_detection_def
  by (intro tracks_then_do tracks_with_resource tracks_call tracks_ret tracks_lift)
     (auto intro: tracks_call tracks_ret split: prod.splits)

lemma detect_face_last_raised:
  assumes "content_type file = Some ct" and "startswith ct ''image/''"
  shows "case last_raised (new_calls s (snd (detect_face env file s))) of
           None \<Rightarrow> (\<exists>response. fst (detect_face env file s) = Return response \<and>
                      fst (try_body env file s) = Inr response)
         | Some (Exception c e) \<Rightarrow>
             fst (detect_face env file s) = Return (JObj [(''ok'', JBool False), (''error'', JStr e)])
         | Some (BaseException c e) \<Rightarrow> fst (detect_face env file s) = Raise (BaseException c e)"
proof -
  obtain r s1 where t: "try_body env file s = (r, s1)" by (cases "try_body env file s")
  from tracksD [OF tracks_try_body t] obtain new where n: "calls s1 = calls s @ new"
    and l: "case r of Inl e \<Rightarrow> last_raised new = Some e | Inr x \<Rightarrow> last_raised new = None"
    by blast
  from assms t n l show ?thesis
    by (auto simp add: detect_face_def new_calls_def print_def last_raised_append
        split: sum.splits py_exc.splits)
qed

lemma agree_refl: "agree r r"
  by (simp add: agree_def split: sum.splits)

lemma repeatable_eff_ret: "repeatable_eff (ret x)"
  by (simp add: repeatable_eff_def ret_def agree_def)

lemma repeatable_eff_lift: "repeatable_eff (lift r)"
  by (simp add: repeatable_eff_def lift_def agree_refl)

lemma repeatable_eff_call: "repeatable op \<Longrightarrow> repeatable_eff (call ev op)"
  unfolding repeatable_eff_def repeatable_def call_def
  by (auto split: prod.splits) (metis fst_conv)

lemma repeatable_effD:
  assumes "repeatable_eff m" and "m s = (r, t)" and "m s' = (r', t')"
  shows "agree r r'"
  using assms unfolding repeatable_eff_def by (metis fst_conv)

lemma repeatable_eff_then_do:
  assumes "repeatable_eff m" and "\<And>x. repeatable_eff (f x)"
  shows "repeatable_eff (then_do m f)"
  unfolding repeatable_eff_def
proof (intro allI)
  fix s s'
  obtain r1 t1 where m1: "m s = (r1, t1)" by (cases "m s")
  obtain r2 t2 where m2: "m s' = (r2, t2)" by (cases "m s'")
  note a = repeatable_effD [OF assms(1) m1 m2]
  show "agree (fst (then_do m f s)) (fst (then_do m f s'))"
  proof (cases r1)
    case (Inl e)
    with a m1 m2 show ?thesis
      by (auto simp add: then_do_def agree_def split: sum.splits)
  next
    case (Inr x)
    with a have r2: "r2 = Inr x" by (auto simp add: agree_def split: sum.splits)
    from assms(2) [of x] have "agree (fst (f x t1)) (fst (f x t2))"
      unfolding repeatable_eff_def by blast
    with Inr r2 m1 m2 show ?thesis by (simp add: then_do_def)
  qed
qed

lemma repeatable_eff_with_resource:
  assumes "repeatable_eff acquire" and "\<And>r. repeatable_eff (release r)"
    and "\<And>r. repeatable_eff (block r)"
  shows "repeatable_eff (with_resource acquire release block)"
  unfolding repeatable_eff_def
proof (intro allI)
  fix s s'
  let ?m = "with_resource acquire release block"
  obtain r1 t1 where a1: "acquire s = (r1, t1)" by (cases "acquire s")
  obtain r2 t2 where a2: "acquire s' = (r2, t2)" by (cases "acquire s'")
  note a = repeatable_effD [OF assms(1) a1 a2]
  show "agree (fst (?m s)) (fst (?m s'))"
  proof (cases r1)
    case (Inl e)
    with a a1 a2 show ?thesis
      by (auto simp add: with_resource_def agree_def split: sum.splits)
  next
    case (Inr x)
    with a have r2: "r2 = Inr x" by (auto simp add: agree_def split: sum.splits)
    obtain b1 u1 where b1: "block x t1 = (b1, u1)" by (cases "block x t1")
    obtain b2 u2 where b2: "block x t2 = (b2, u2)" by (cases "block x t2")
    note b = repeatable_effD [OF assms(3) b1 b2]
    obtain c1 v1 where c1: "release x u1 = (c1, v1)" by (cases "release x u1")
    obtain c2 v2 where c2: "release x u2 = (c2, v2)" by (cases "release x u2")
    note c = repeatable_effD [OF assms(2) c1 c2]
    from Inr r2 a1 a2 b1 b2 c1 c2 b c show ?thesis
      by (auto simp add: with_resource_def agree_def split: sum.splits)
  qed
qed

lemma repeatable_eff_load_image:
  assumes "repeatable_loading env"
  shows "repeatable_eff (load_image env file)"
  using assms unfolding load_image_def repeatable_loading_def
  by (intro repeatable_eff_then_do repeatable_eff_call repeatable_eff_ret repeatable_eff_lift)
     (auto simp add: repeatable_eff_call repeatable_eff_ret split: prod.splits)

lemma repeatable_eff_run_detection:
  assumes "repeatable_detection env"
  shows "repeatable_eff (run_detection env a)"
  using assms unfolding run_detection_def repeatable_detection_def
  by (intro repeatable_eff_with_resource repeatable_eff_then_do repeatable_eff_call
        repeatable_eff_ret) auto

lemma repeatable_eff_try_body:
  assumes "repeatable_loading env" and "repeatable_detection env"
  shows "repeatable_eff (try_body env file)"
  unfolding try_body_def
  by (intro repeatable_eff_then_do repeatable_eff_load_image repeatable_eff_run_detection assms)

lemma detect_face_repeatable:
  assumes "repeatable_loading env" and "repeatable_detection env"
  shows "found_and_face (fst (detect_face env file s)) =
         found_and_face (fst (detect_face env file s'))"
proof -
  obtain r1 t1 where m1: "try_body env file s = (r1, t1)" by (cases "try_body env file s")
  obtain r2 t2 where m2: "try_body env file s' = (r2, t2)" by (cases "try_body env file s'")
  from repeatable_effD [OF repeatable_eff_try_body [OF assms] m1 m2] have "agree r1 r2" .
  with m1 m2 show ?thesis
    by (auto simp add: detect_face_def found_and_face_def agree_def
        split: option.splits sum.splits py_exc.splits)
qed

text \<open>Sums of floats: the two sums of the example of the specification are exact, and
  \<open>0.1 + 0.4 / 2\<close> is rounded away from \<open>0.3\<close>.\<close>

lemma float_centre_x: "float_add (round_double (1 / 5)) (float_div_2 (round_double (1 / 10))) = Finite (1 / 4)"
  by code_simp

lemma float_centre_y: "float_add (round_double (3 / 10)) (float_div_2 (round_double (1 / 5))) = round_double (2 / 5)"
  by code_simp

lemma float_quarter: "round_double (1 / 4) = Finite (1 / 4)"
  by code_simp

lemma float_add_rounds:
  "float_add (round_double (1 / 10)) (float_div_2 (round_double (2 / 5))) =
     Finite (1351079888211149 / 4503599627370496) \<and>
   round_double (3 / 10) = Finite (5404319552844595 / 18014398509481984)"
  by code_simp

lemma float_edge_box:
  "round_double (3 / 4) = Finite (3 / 4) \<and> round_double (1 / 4) = Finite (1 / 4) \<and>
   round_double 1 = Finite 1 \<and> round_double (1 / 2) = Finite (1 / 2) \<and>
   round_double (5 / 4) = Finite (5 / 4)"
  by code_simp

lemma png_content_type: "content_type png_upload = Some ''image/png''"
  by (simp add: png_upload_def)

lemma png_is_image: "startswith ''image/png'' ''image/''"
  by (simp add: startswith_def)

lemma example_load_image:
  "load_image (example_env (Inr grey_image) r) png_upload start = (Inr rgb_array, loaded)"
  by (simp add: load_image_def unpack3_def eff_defs example_defs)

lemma example_face_detection_results:
  "face_detection_results (example_env d (Inr r)) rgb_array loaded = (Inr r, detected)"
  by (simp add: face_detection_results_def eff_defs example_defs)

lemma example_pil_contract: "pil_contract (example_env d r)"
  by (auto simp add: pil_contract_def example_env_def channels_def)

lemma example_repeatable:
  "repeatable_detection (example_env d r)" "repeatable_loading (example_env d r)"
  by (simp_all add: repeatable_detection_def repeatable_loading_def repeatable_def
        example_env_def agree_refl)

subsection \<open>The content type precondition\<close>

text \<open>
  Claim C1. An upload whose declared content type does not start with \<open>image/\<close> is
  answered with HTTP 400 and the detail "File must be an image", whatever its body and
  whatever the environment would do: the handler raises before the \<open>try\<close> statement, and
  the state, with its log of calls, is the one the request started in, so nothing was read,
  decoded or detected.
\<close>

theorem non_image_content_type_rejected:
  assumes "content_type file = Some ct" and "\<not> startswith ct ''image/''"
  shows "detect_face env file s = (Raise_HTTPException 400 ''File must be an image'', s) \<and>
         http_response (fst (detect_face env file s)) =
           Some (400, JObj [(''detail'', JStr ''File must be an image'')])"
  using assms by (simp add: detect_face_def)

theorem non_image_content_type_rejected_witness:
  "content_type text_upload = Some ''text/plain'' \<and> \<not> startswith ''text/plain'' ''image/'' \<and>
   detect_face (example_env (Inr grey_image) (Inr \<lparr>detections = None\<rparr>)) text_upload start =
     (Raise_HTTPException 400 ''File must be an image'', start) \<and>
   calls start = []"
  using non_image_content_type_rejected [of text_upload "''text/plain''" "example_env (Inr grey_image) (Inr \<lparr>detections = None\<rparr>)" start]
  by (simp add: text_upload_def startswith_def start_def)

subsection \<open>Processing failures\<close>

text \<open>
  Claim C2, as amended. For an upload that passes the test of the content type, the last
  exception raised while the upload is read, decoded, converted and run through detection
  decides the answer (an exception raised in the \<open>with\<close> block is replaced by one raised
  while the detector is closed). When it is of class \<open>Exception\<close>, the handler returns
  \<open>{ok: false, error: str(e)}\<close>, which is sent with status 200; the error string is the
  message of the exception, whatever it is. When it does not derive from \<open>Exception\<close>, it
  leaves the handler. No exception of class \<open>Exception\<close> leaves the handler.
\<close>

theorem processing_exception_reported:
  assumes "content_type file = Some ct" and "startswith ct ''image/''"
  shows "(\<forall>c e. last_raised (new_calls s (snd (detect_face env file s))) = Some (Exception c e) \<longrightarrow>
            fst (detect_face env file s) =
              Return (JObj [(''ok'', JBool False), (''error'', JStr e)]) \<and>
            http_response (fst (detect_face env file s)) =
              Some (200, JObj [(''ok'', JBool False), (''error'', JStr e)])) \<and>
         (\<forall>c e. last_raised (new_calls s (snd (detect_face env file s))) = Some (BaseException c e) \<longrightarrow>
            fst (detect_face env file s) = Raise (BaseException c e)) \<and>
         (\<forall>c e. fst (detect_face env file s) \<noteq> Raise (Exception c e))"
proof -
  have "\<forall>c e. fst (detect_face env file s) \<noteq> Raise (Exception c e)"
    using assms
    by (auto simp add: detect_face_def split: prod.splits sum.splits py_exc.splits)
  with detect_face_last_raised [OF assms, where s = s and env = env] show ?thesis
    by (auto split: option.splits py_exc.splits)
qed

theorem processing_exception_reported_witness:
  "content_type png_upload = Some ''image/png'' \<and> startswith ''image/png'' ''image/'' \<and>
   last_raised
     (new_calls start
        (snd (detect_face
                (example_env (Inl (Exception ''UnidentifiedImageError'' ''cannot identify image file''))
                   (Inr \<lparr>detections = None\<rparr>))
                png_upload start))) =
     Some (Exception ''UnidentifiedImageError'' ''cannot identify image file'') \<and>
   detect_face
     (example_env (Inl (Exception ''UnidentifiedImageError'' ''cannot identify image file''))
        (Inr \<lparr>detections = None\<rparr>))
     png_upload start =
     (Return (JObj [(''ok'', JBool False), (''error'', JStr ''cannot identify image file'')]),
      \<lparr>world = 2,
       calls = [Read, Image_open [137, 80, 78, 71],
                Raised (Exception ''UnidentifiedImageError'' ''cannot identify image file''),
                Print ''Error processing image: cannot identify image file'']\<rparr>) \<and>
   http_response
     (fst (detect_face
             (example_env (Inl (Exception ''UnidentifiedImageError'' ''cannot identify image file''))
                (Inr \<lparr>detections = None\<rparr>))
             png_upload start)) =
     Some (200, JObj [(''ok'', JBool False), (''error'', JStr ''cannot identify image file'')])"
proof -
  let ?env = "example_env (Inl (Exception ''UnidentifiedImageError'' ''cannot identify image file''))
                (Inr \<lparr>detections = None\<rparr>)"
  have r: "detect_face ?env png_upload start =
     (Return (JObj [(''ok'', JBool False), (''error'', JStr ''cannot identify image file'')]),
      \<lparr>world = 2,
       calls = [Read, Image_open [137, 80, 78, 71],
                Raised (Exception ''UnidentifiedImageError'' ''cannot identify image file''),
                Print ''Error processing image: cannot identify image file'']\<rparr>)"
    by (simp add: detect_face_def try_body_def load_image_def eff_defs example_defs startswith_def)
  have t: "last_raised (new_calls start (snd (detect_face ?env png_upload start))) =
             Some (Exception ''UnidentifiedImageError'' ''cannot identify image file'')"
    by (subst r) (simp add: new_calls_def start_def)
  from processing_exception_reported [OF png_content_type png_is_image, of start ?env] t
  have h: "http_response (fst (detect_face ?env png_upload start)) =
     Some (200, JObj [(''ok'', JBool False), (''error'', JStr ''cannot identify image file'')])"
    by blast
  show ?thesis
    by (intro conjI png_content_type png_is_image t r h)
qed

text \<open>
  The claim as stated fails at three inputs. Decoding raises \<open>MemoryError()\<close>, whose message
  is empty: the error string of the response is empty. Decoding is interrupted by
  \<open>KeyboardInterrupt\<close>: the exception is not caught and no dictionary is returned.
  \<open>process\<close> raises RuntimeError and closing the detector then raises \<open>SystemExit\<close>: an
  exception of class \<open>Exception\<close> was raised during detection, and no dictionary is returned.
\<close>

theorem processing_exception_counterexample:
  "content_type png_upload = Some ''image/png'' \<and> startswith ''image/png'' ''image/'' \<and>
   fst (detect_face (example_env (Inl (Exception ''MemoryError'' [])) (Inr \<lparr>detections = None\<rparr>))
          png_upload start) =
     Return (JObj [(''ok'', JBool False), (''error'', JStr [])]) \<and>
   fst (detect_face (example_env (Inl (BaseException ''KeyboardInterrupt'' [])) (Inr \<lparr>detections = None\<rparr>))
          png_upload start) =
     Raise (BaseException ''KeyboardInterrupt'' []) \<and>
   Raised (Exception ''RuntimeError'' ''graph failed'') \<in>
     set (calls (snd (detect_face
                        (closing_env (Exception ''RuntimeError'' ''graph failed'')
                           (BaseException ''SystemExit'' []))
                        png_upload start))) \<and>
   fst (detect_face
          (closing_env (Exception ''RuntimeError'' ''graph failed'') (BaseException ''SystemExit'' []))
          png_upload start) =
     Raise (BaseException ''SystemExit'' [])"
  by (simp add: detect_face_def try_body_def load_image_def run_detection_def unpack3_def
        closing_env_def eff_defs example_defs startswith_def)

subsection \<open>No detection\<close>

text \<open>
  Claim C3. For an upload with an image content type that loads into an array, when the
  detection capability returns no detections (\<open>None\<close> or the empty list), the response is
  exactly \<open>{ok: true, found: false}\<close>, a dictionary of two keys.
\<close>

theorem no_detection_response:
  assumes "content_type file = Some ct" and "startswith ct ''image/''"
    and "load_image env file s = (Inr a, s1)"
    and "face_detection_results env a s1 = (Inr r, s2)"
    and "detections r = None \<or> detections r = Some []"
  shows "detect_face env file s = (Return (JObj [(''ok'', JBool True), (''found'', JBool False)]), s2)"
  using assms(5) detect_face_success [OF assms(1-4)]
  by (auto simp add: face_response_def)

theorem no_detection_response_witness:
  "content_type png_upload = Some ''image/png'' \<and> startswith ''image/png'' ''image/'' \<and>
   load_image (example_env (Inr grey_image) (Inr \<lparr>detections = Some []\<rparr>)) png_upload start =
     (Inr rgb_array, loaded) \<and>
   face_detection_results (example_env (Inr grey_image) (Inr \<lparr>detections = Some []\<rparr>)) rgb_array loaded =
     (Inr \<lparr>detections = Some []\<rparr>, detected) \<and>
   detect_face (example_env (Inr grey_image) (Inr \<lparr>detections = Some []\<rparr>)) png_upload start =
     (Return (JObj [(''ok'', JBool True), (''found'', JBool False)]), detected)"
proof -
  let ?r = "\<lparr>detections = Some []\<rparr>"
  let ?env = "example_env (Inr grey_image) (Inr ?r)"
  have l: "load_image ?env png_upload start = (Inr rgb_array, loaded)"
    by (rule example_load_image)
  have d: "face_detection_results ?env rgb_array loaded = (Inr ?r, detected)"
    by (rule example_face_detection_results)
  have n: "detections ?r = None \<or> detections ?r = Some []"
    by simp
  from no_detection_response [OF png_content_type png_is_image l d n] show ?thesis
    by (intro conjI png_content_type png_is_image l d)
qed

subsection \<open>The face payload\<close>

text \<open>
  Claim C4. When the first detection has the bounding box \<open>b\<close>, the response carries the
  face \<open>x = xmin + width/2\<close>, \<open>y = ymin + height/2\<close>, \<open>w = width\<close>, \<open>h = height\<close>, where
  \<open>+\<close> and \<open>/\<close> are the operations of Python floats. The example that follows is the box
  0.2, 0.3, 0.1, 0.2, each number the double Python writes so, with the face 0.25, 0.4,
  0.1, 0.2.
\<close>

theorem face_centre_payload:
  assumes "content_type file = Some ct" and "startswith ct ''image/''"
    and "load_image env file s = (Inr a, s1)"
    and "face_detection_results env a s1 = (Inr r, s2)"
    and "detections r = Some (d # ds)"
    and "relative_bounding_box (location_data d) = b"
  shows "detect_face env file s =
           (Return (JObj [(''ok'', JBool True), (''found'', JBool True),
                          (''face'', JObj [(''x'', JNum (float_add (xmin b) (float_div_2 (width b)))),
                                           (''y'', JNum (float_add (ymin b) (float_div_2 (height b)))),
                                           (''w'', JNum (width b)),
                                           (''h'', JNum (height b))])]), s2)"
  using assms(5,6) detect_face_success [OF assms(1-4)]
  by (simp add: face_response_def)

theorem face_centre_payload_witness:
  "content_type png_upload = Some ''image/png'' \<and> startswith ''image/png'' ''image/'' \<and>
   load_image (example_env (Inr grey_image) (Inr \<lparr>detections = Some [face_at 0.9 0.2 0.3 0.1 0.2]\<rparr>))
     png_upload start = (Inr rgb_array, loaded) \<and>
   face_detection_results
     (example_env (Inr grey_image) (Inr \<lparr>detections = Some [face_at 0.9 0.2 0.3 0.1 0.2]\<rparr>))
     rgb_array loaded = (Inr \<lparr>detections = Some [face_at 0.9 0.2 0.3 0.1 0.2]\<rparr>, detected) \<and>
   relative_bounding_box (location_data (face_at 0.9 0.2 0.3 0.1 0.2)) =
     \<lparr>xmin = round_double 0.2, ymin = round_double 0.3,
      width = round_double 0.1, height = round_double 0.2\<rparr> \<and>
   detect_face (example_env (Inr grey_image) (Inr \<lparr>detections = Some [face_at 0.9 0.2 0.3 0.1 0.2]\<rparr>))
     png_upload start =
     (Return (JObj [(''ok'', JBool True), (''found'', JBool True),
                    (''face'', JObj [(''x'', JNum (round_double 0.25)), (''y'', JNum (round_double 0.4)),
                                     (''w'', JNum (round_double 0.1)), (''h'', JNum (round_double 0.2))])]),
      detected)"
proof -
  let ?d = "face_at 0.9 0.2 0.3 0.1 0.2"
  let ?r = "\<lparr>detections = Some [?d]\<rparr>"
  let ?env = "example_env (Inr grey_image) (Inr ?r)"
  have l: "load_image ?env png_upload start = (Inr rgb_array, loaded)"
    by (rule example_load_image)
  have d: "face_detection_results ?env rgb_array loaded = (Inr ?r, detected)"
    by (rule example_face_detection_results)
  have f: "detections ?r = Some (?d # [])"
    by simp
  have b: "relative_bounding_box (location_data ?d) =
             \<lparr>xmin = round_double 0.2, ymin = round_double 0.3,
              width = round_double 0.1, height = round_double 0.2\<rparr>"
    by (simp add: face_at_def)
  from face_centre_payload [OF png_content_type png_is_image l d f b]
  have r: "detect_face ?env png_upload start =
     (Return (JObj [(''ok'', JBool True), (''found'', JBool True),
                    (''face'', JObj [(''x'', JNum (round_double 0.25)), (''y'', JNum (round_double 0.4)),
                                     (''w'', JNum (round_double 0.1)), (''h'', JNum (round_double 0.2))])]),
      detected)"
    by (simp add: float_centre_x float_centre_y float_quarter)
  show ?thesis
    by (intro conjI png_content_type png_is_image l d b r)
qed

subsection \<open>The range of the face fields\<close>

text \<open>
  Claim C5. The handler does not keep the centre in [0, 1]. For a first detection with
  the box 0.75, 0.25, 1, 0.5, whose four fields lie in [0, 1] and are doubles, it returns
  \<open>x = 1.25\<close>, where the comments of lines 53, 68 and 69 say 0.0 to 1.0.
\<close>

theorem face_centre_exceeds_one:
  "relative_bounding_box (location_data (face_at 0.9 0.75 0.25 1 0.5)) =
     \<lparr>xmin = Finite (3 / 4), ymin = Finite (1 / 4), width = Finite 1, height = Finite (1 / 2)\<rparr> \<and>
   fst (detect_face
          (example_env (Inr grey_image) (Inr \<lparr>detections = Some [face_at 0.9 0.75 0.25 1 0.5]\<rparr>))
          png_upload start) =
     Return (JObj [(''ok'', JBool True), (''found'', JBool True),
                   (''face'', JObj [(''x'', JNum (Finite (5 / 4))), (''y'', JNum (Finite (1 / 2))),
                                    (''w'', JNum (Finite 1)), (''h'', JNum (Finite (1 / 2)))])]) \<and>
   (1 :: rat) < 5 / 4"
proof -
  let ?d = "face_at 0.9 0.75 0.25 1 0.5"
  let ?r = "\<lparr>detections = Some [?d]\<rparr>"
  let ?env = "example_env (Inr grey_image) (Inr ?r)"
  have l: "load_image ?env png_upload start = (Inr rgb_array, loaded)"
    by (rule example_load_image)
  have d: "face_detection_results ?env rgb_array loaded = (Inr ?r, detected)"
    by (rule example_face_detection_results)
  have b: "relative_bounding_box (location_data ?d) =
     \<lparr>xmin = Finite (3 / 4), ymin = Finite (1 / 4), width = Finite 1, height = Finite (1 / 2)\<rparr>"
    by (simp add: face_at_def float_edge_box)
  have r: "fst (detect_face ?env png_upload start) =
     Return (JObj [(''ok'', JBool True), (''found'', JBool True),
                   (''face'', JObj [(''x'', JNum (Finite (5 / 4))), (''y'', JNum (Finite (1 / 2))),
                                    (''w'', JNum (Finite 1)), (''h'', JNum (Finite (1 / 2)))])])"
    using detect_face_success [OF png_content_type png_is_image l d] b
    by (simp add: face_response_def float_edge_box)
  have c: "(1 :: rat) < 5 / 4"
    by simp
  show ?thesis
    by (intro conjI b r c)
qed

subsection \<open>Only the first detection counts\<close>

text \<open>
  Claim C6. Two requests whose detection sequences are not empty and start with the same
  detection get the same response, whatever follows the first detection in either
  sequence (and whatever the uploads, the environments and the states are).
\<close>

theorem first_detection_only:
  assumes "content_type file = Some ct" and "startswith ct ''image/''"
    and "load_image env file s = (Inr a, s1)"
    and "face_detection_results env a s1 = (Inr r, s2)"
    and "detections r = Some (d # ds)"
    and "content_type file' = Some ct'" and "startswith ct' ''image/''"
    and "load_image env' file' s' = (Inr a', s1')"
    and "face_detection_results env' a' s1' = (Inr r', s2')"
    and "detections r' = Some (d # ds')"
  shows "fst (detect_face env file s) = fst (detect_face env' file' s')"
  using detect_face_success [OF assms(1-4)] detect_face_success [OF assms(6-9)] assms(5,10)
  by (simp add: face_response_def)

theorem first_detection_only_witness:
  "content_type png_upload = Some ''image/png'' \<and> startswith ''image/png'' ''image/'' \<and>
   load_image (example_env (Inr grey_image) (Inr \<lparr>detections = Some [face_at 0.6 0.2 0.3 0.1 0.2]\<rparr>))
     png_upload start = (Inr rgb_array, loaded) \<and>
   face_detection_results
     (example_env (Inr grey_image) (Inr \<lparr>detections = Some [face_at 0.6 0.2 0.3 0.1 0.2]\<rparr>))
     rgb_array loaded = (Inr \<lparr>detections = Some [face_at 0.6 0.2 0.3 0.1 0.2]\<rparr>, detected) \<and>
   load_image
     (example_env (Inr grey_image)
        (Inr \<lparr>detections = Some [face_at 0.6 0.2 0.3 0.1 0.2, face_at 0.99 0.5 0.5 0.4 0.4]\<rparr>))
     png_upload start = (Inr rgb_array, loaded) \<and>
   face_detection_results
     (example_env (Inr grey_image)
        (Inr \<lparr>detections = Some [face_at 0.6 0.2 0.3 0.1 0.2, face_at 0.99 0.5 0.5 0.4 0.4]\<rparr>))
     rgb_array loaded =
     (Inr \<lparr>detections = Some [face_at 0.6 0.2 0.3 0.1 0.2, face_at 0.99 0.5 0.5 0.4 0.4]\<rparr>, detected) \<and>
   fst (detect_face
          (example_env (Inr grey_image) (Inr \<lparr>detections = Some [face_at 0.6 0.2 0.3 0.1 0.2]\<rparr>))
          png_upload start) =
   fst (detect_face
          (example_env (Inr grey_image)
             (Inr \<lparr>detections = Some [face_at 0.6 0.2 0.3 0.1 0.2, face_at 0.99 0.5 0.5 0.4 0.4]\<rparr>))
          png_upload start)"
proof -
  let ?d = "face_at 0.6 0.2 0.3 0.1 0.2"
  let ?d' = "face_at 0.99 0.5 0.5 0.4 0.4"
  let ?r = "\<lparr>detections = Some [?d]\<rparr>"
  let ?r' = "\<lparr>detections = Some [?d, ?d']\<rparr>"
  let ?env = "example_env (Inr grey_image) (Inr ?r)"
  let ?env' = "example_env (Inr grey_image) (Inr ?r')"
  have l: "load_image ?env png_upload start = (Inr rgb_array, loaded)"
    by (rule example_load_image)
  have d: "face_detection_results ?env rgb_array loaded = (Inr ?r, detected)"
    by (rule example_face_detection_results)
  have f: "detections ?r = Some (?d # [])"
    by simp
  have l': "load_image ?env' png_upload start = (Inr rgb_array, loaded)"
    by (rule example_load_image)
  have d': "face_detection_results ?env' rgb_array loaded = (Inr ?r', detected)"
    by (rule example_face_detection_results)
  have f': "detections ?r' = Some (?d # [?d'])"
    by simp
  from first_detection_only [OF png_content_type png_is_image l d f png_content_type png_is_image l' d' f']
  show ?thesis
    by (intro conjI png_content_type png_is_image l d l' d')
qed

subsection \<open>Detection receives RGB buffers\<close>

text \<open>
  Claim C7. Given that \<open>convert("RGB")\<close> returns an image of mode RGB and that the array of
  an RGB image has three channels, every array the handler passes to \<open>process\<close> has three
  channels: a \<open>Process\<close> call in the log after the request was there before it, or its array
  has three channels.
\<close>

theorem detection_receives_rgb:
  assumes "pil_contract env"
  shows "\<forall>a. Process a \<in> set (calls (snd (detect_face env file s))) \<longrightarrow>
           Process a \<in> set (calls s) \<or> channels a = Some 3"
proof (intro allI impI)
  fix a
  assume p: "Process a \<in> set (calls (snd (detect_face env file s)))"
  show "Process a \<in> set (calls s) \<or> channels a = Some 3"
  proof (cases "load_image env file s")
    case (Pair res s1)
    note li = load_image_calls [OF Pair, of a]
    show ?thesis
    proof (cases res)
      case (Inl e)
      with Pair p li show ?thesis
        by (auto simp add: detect_face_def try_body_def then_do_def print_def
            split: option.splits if_splits py_exc.splits)
    next
      case (Inr b)
      with Pair have ch: "channels b = Some 3"
        using load_image_channels [OF assms] by simp
      obtain r2 s2 where rd: "run_detection env b s1 = (r2, s2)"
        by (cases "run_detection env b s1")
      note rc = run_detection_calls [OF rd, of a]
      from Pair Inr rd p li rc ch show ?thesis
        by (auto simp add: detect_face_def try_body_def then_do_def print_def
            split: option.splits if_splits py_exc.splits sum.splits)
    qed
  qed
qed

theorem detection_receives_rgb_witness:
  "pil_contract (example_env (Inr grey_image) (Inr \<lparr>detections = None\<rparr>)) \<and>
   mode grey_image = ''L'' \<and>
   Process rgb_array \<in>
     set (calls (snd (detect_face (example_env (Inr grey_image) (Inr \<lparr>detections = None\<rparr>))
                        png_upload start))) \<and>
   Process rgb_array \<notin> set (calls start) \<and>
   channels rgb_array = Some 3"
proof -
  let ?env = "example_env (Inr grey_image) (Inr \<lparr>detections = None\<rparr>)"
  have c: "pil_contract ?env"
    by (rule example_pil_contract)
  have l: "load_image ?env png_upload start = (Inr rgb_array, loaded)"
    by (rule example_load_image)
  have d: "face_detection_results ?env rgb_array loaded = (Inr \<lparr>detections = None\<rparr>, detected)"
    by (rule example_face_detection_results)
  have p: "Process rgb_array \<in> set (calls (snd (detect_face ?env png_upload start)))"
    using detect_face_success [OF png_content_type png_is_image l d]
    by (simp add: detected_def)
  have n: "Process rgb_array \<notin> set (calls start)"
    by (simp add: start_def)
  from detection_receives_rgb [OF c, of png_upload start] p n have "channels rgb_array = Some 3"
    by blast
  with c p n show ?thesis
    by (simp add: grey_image_def)
qed

subsection \<open>The same upload twice\<close>

text \<open>
  Claim C8. When detection is repeatable, and the upload loads repeatably, the same upload
  gets the same \<open>found\<close> and the same \<open>face\<close> from every state; in particular when it is
  sent again in the state the first request left. The messages of the exceptions may
  differ from one request to the next: in the second example that follows the two
  responses differ, and neither has a \<open>found\<close> or a \<open>face\<close>.
\<close>

theorem same_upload_same_face:
  assumes "repeatable_detection env" and "repeatable_loading env"
  shows "found_and_face (fst (detect_face env file s)) =
           found_and_face (fst (detect_face env file s')) \<and>
         found_and_face (fst (detect_face env file (snd (detect_face env file s)))) =
           found_and_face (fst (detect_face env file s))"
  using detect_face_repeatable [OF assms(2) assms(1)] by blast

theorem same_upload_same_face_witness:
  "repeatable_detection
     (example_env (Inr grey_image) (Inr \<lparr>detections = Some [face_at 0.9 0.2 0.3 0.1 0.2]\<rparr>)) \<and>
   repeatable_loading
     (example_env (Inr grey_image) (Inr \<lparr>detections = Some [face_at 0.9 0.2 0.3 0.1 0.2]\<rparr>)) \<and>
   snd (detect_face
          (example_env (Inr grey_image) (Inr \<lparr>detections = Some [face_at 0.9 0.2 0.3 0.1 0.2]\<rparr>))
          png_upload start) = detected \<and>
   found_and_face
     (fst (detect_face
             (example_env (Inr grey_image) (Inr \<lparr>detections = Some [face_at 0.9 0.2 0.3 0.1 0.2]\<rparr>))
             png_upload detected)) =
   found_and_face
     (fst (detect_face
             (example_env (Inr grey_image) (Inr \<lparr>detections = Some [face_at 0.9 0.2 0.3 0.1 0.2]\<rparr>))
             png_upload start)) \<and>
   found_and_face
     (fst (detect_face
             (example_env (Inr grey_image) (Inr \<lparr>detections = Some [face_at 0.9 0.2 0.3 0.1 0.2]\<rparr>))
             png_upload start)) =
     (Some (JBool True),
      Some (JObj [(''x'', JNum (round_double 0.25)), (''y'', JNum (round_double 0.4)),
                  (''w'', JNum (round_double 0.1)), (''h'', JNum (round_double 0.2))])) \<and>
   repeatable_detection address_env \<and> repeatable_loading address_env \<and>
   found_and_face (fst (detect_face address_env png_upload detected)) =
     found_and_face (fst (detect_face address_env png_upload start)) \<and>
   fst (detect_face address_env png_upload detected) \<noteq>
     fst (detect_face address_env png_upload start)"
proof -
  let ?d = "face_at 0.9 0.2 0.3 0.1 0.2"
  let ?r = "\<lparr>detections = Some [?d]\<rparr>"
  let ?env = "example_env (Inr grey_image) (Inr ?r)"
  have e: "repeatable_detection ?env"
    by (rule example_repeatable)
  have e': "repeatable_loading ?env"
    by (rule example_repeatable)
  have l: "load_image ?env png_upload start = (Inr rgb_array, loaded)"
    by (rule example_load_image)
  have d: "face_detection_results ?env rgb_array loaded = (Inr ?r, detected)"
    by (rule example_face_detection_results)
  note run = detect_face_success [OF png_content_type png_is_image l d]
  have s: "snd (detect_face ?env png_upload start) = detected"
    using run by simp
  from same_upload_same_face [OF e e', of png_upload start start] s
  have t: "found_and_face (fst (detect_face ?env png_upload detected)) =
           found_and_face (fst (detect_face ?env png_upload start))"
    by simp
  have v: "found_and_face (fst (detect_face ?env png_upload start)) =
     (Some (JBool True),
      Some (JObj [(''x'', JNum (round_double 0.25)), (''y'', JNum (round_double 0.4)),
                  (''w'', JNum (round_double 0.1)), (''h'', JNum (round_double 0.2))]))"
    using run
    by (simp add: found_and_face_def face_response_def face_at_def
          float_centre_x float_centre_y float_quarter)
  have a: "repeatable_detection address_env"
    by (simp add: repeatable_detection_def repeatable_def address_env_def example_env_def agree_refl)
  have a': "repeatable_loading address_env"
    by (simp add: repeatable_loading_def repeatable_def address_env_def example_env_def agree_def)
  from same_upload_same_face [OF a a', of png_upload start detected]
  have t': "found_and_face (fst (detect_face address_env png_upload detected)) =
            found_and_face (fst (detect_face address_env png_upload start))"
    by simp
  have n: "fst (detect_face address_env png_upload detected) \<noteq>
           fst (detect_face address_env png_upload start)"
    by (simp add: detect_face_def try_body_def load_image_def address_env_def eff_defs
          example_defs startswith_def)
  show ?thesis
    by (intro conjI e e' s t v a a' t' n)
qed

subsection \<open>GET /\<close>

text \<open>
  Claim C9. \<open>read_root\<close> returns the same dictionary in every state and leaves the state as
  it is; the response has status 200.
\<close>

theorem read_root_static:
  "read_root s =
     (Return (JObj [(''status'', JStr ''ok''), (''service'', JStr ''VibraFrame Face Detection'')]), s) \<and>
   http_response (fst (read_root s)) =
     Some (200, JObj [(''status'', JStr ''ok''), (''service'', JStr ''VibraFrame Face Detection'')])"
  by (simp add: read_root_def)

subsection \<open>An upload without content type\<close>

text \<open>
  Claim C10. For an upload without a content type, the test of the content type raises
  AttributeError before the \<open>try\<close> statement: the handler makes no call, and the response
  is neither the 400 of the precondition nor a 200.
\<close>

theorem missing_content_type_raises:
  assumes "content_type file = None"
  shows "detect_face env file s =
           (Raise (Exception ''AttributeError''
                    (quoted ''NoneType'' @ '' object has no attribute '' @ quoted ''startswith'')), s) \<and>
         (\<forall>b. http_response (fst (detect_face env file s)) \<noteq> Some (400, b)) \<and>
         (\<forall>b. http_response (fst (detect_face env file s)) \<noteq> Some (200, b))"
  using assms by (simp add: detect_face_def)

theorem missing_content_type_raises_witness:
  "content_type (png_upload\<lparr>content_type := None\<rparr>) = None \<and>
   detect_face (example_env (Inr grey_image) (Inr \<lparr>detections = None\<rparr>))
     (png_upload\<lparr>content_type := None\<rparr>) start =
     (Raise (Exception ''AttributeError''
              (quoted ''NoneType'' @ '' object has no attribute '' @ quoted ''startswith'')), start) \<and>
   http_response
     (fst (detect_face (example_env (Inr grey_image) (Inr \<lparr>detections = None\<rparr>))
             (png_upload\<lparr>content_type := None\<rparr>) start)) =
     Some (500, JStr ''Internal Server Error'')"
proof -
  have n: "content_type (png_upload\<lparr>content_type := None\<rparr>) = None"
    by simp
  from missing_content_type_raises [OF n, of "example_env (Inr grey_image) (Inr \<lparr>detections = None\<rparr>)" start]
  show ?thesis
    by simp
qed

end
